theory Spec2Isabelle
  imports Main "HOL-Library.Char_ord" "HOL-Library.Multiset"
begin

section \<open>Go library functions used by the packages\<close>

text \<open>
  Go strings are byte sequences; they are modelled as \<^typ>\<open>string\<close>.  A Go \<open>error\<close> is
  modelled by its message, and a possibly-nil error by \<^typ>\<open>string option\<close>
  (\<open>None\<close> is \<open>nil\<close>).
\<close>

type_synonym error = string

text \<open>
  \<open>fmt.Sprintf\<close> restricted to what the packages use: the verbs \<open>%v\<close> and \<open>%s\<close>
  applied to string operands.  A verb without operand prints Go's \<open>%!v(MISSING)\<close>.
\<close>

fun Sprintf :: "string \<Rightarrow> string list \<Rightarrow> string" where
  "Sprintf [] args = []"
| "Sprintf (c # fs) args =
     (if c = CHR ''%'' then
        (case fs of
           [] \<Rightarrow> ''%!(NOVERB)''
         | v # fs' \<Rightarrow>
             if v = CHR ''v'' \<or> v = CHR ''s'' then
               (case args of
                  [] \<Rightarrow> ''%!'' @ [v] @ ''(MISSING)'' @ Sprintf fs' []
                | a # as \<Rightarrow> a @ Sprintf fs' as)
             else c # v # Sprintf fs' args)
      else c # Sprintf fs args)"

text \<open>\<open>strings.Join(elems, sep)\<close>.\<close>

fun Join :: "string list \<Rightarrow> string \<Rightarrow> string" where
  "Join [] sep = []"
| "Join [a] sep = a"
| "Join (a # b # rest) sep = a @ sep @ Join (b # rest) sep"

text \<open>
  \<open>strings.Replace(s, old, new, -1)\<close>: every non-overlapping occurrence of \<open>old\<close>,
  from the left.  The packages only call it with a one-byte \<open>old\<close>; the empty
  \<open>old\<close> (where Go inserts \<open>new\<close> around every rune) is left alone here.
\<close>

function Replace :: "string \<Rightarrow> string \<Rightarrow> string \<Rightarrow> string" where
  "Replace [] old new = []"
| "Replace (c # cs) old new =
     (if old \<noteq> [] \<and> take (length old) (c # cs) = old
      then new @ Replace (drop (length old) (c # cs)) old new
      else c # Replace cs old new)"
  by pat_completeness auto
termination
  by (relation "measure (\<lambda>(s, old, new). length s)") auto

text \<open>
  \<open>strings.ToLower\<close> on ASCII text: the bytes \<open>A\<close>..\<open>Z\<close> are moved by
  \<open>'a' - 'A'\<close>, every other byte is kept.  (On non-ASCII text Go maps runes; the
  theorems that depend on case folding assume ASCII method names.)
\<close>

definition ToLower_byte :: "char \<Rightarrow> char" where
  "ToLower_byte c =
     (if CHR ''A'' \<le> c \<and> c \<le> CHR ''Z'' then char_of (of_char c + (32::nat)) else c)"

definition ToLower :: "string \<Rightarrow> string" where
  "ToLower s = map ToLower_byte s"


section \<open>Package vulcan: locations\<close>

definition defaultFailoverPredicate :: string where
  "defaultFailoverPredicate =
     ''(IsNetworkError() || ResponseCode() == 503) && Attempts() <= 2''"

record LocationOptions =
  FailoverPredicate :: string

record 'm Location =
  ID :: string
  Host :: string
  Path :: string
  Upstream :: string
  Options :: LocationOptions
  Middlewares :: "'m list"

text \<open>\<open>LocationOptions.MarshalJSON\<close> returns the bytes and an error, which is always nil.\<close>

definition MarshalJSON :: "LocationOptions \<Rightarrow> string \<times> error option" where
  \<open>MarshalJSON opts = (Sprintf ''{"FailoverPredicate": "%v"}'' [FailoverPredicate opts], None)\<close>

definition makeLocationID :: "string list \<Rightarrow> string \<Rightarrow> string" where
  "makeLocationID methods path =
     ToLower (Replace (Sprintf ''%v%v'' [Join methods ''.'', path]) ''/'' ''.'')"

definition makeLocationPath :: "string list \<Rightarrow> string \<Rightarrow> string" where
  \<open>makeLocationPath methods path =
     Sprintf ''TrieRoute("%v", "%v")'' [Join methods ''", "'', path]\<close>

definition convertPath :: "string \<Rightarrow> string" where
  "convertPath path = Replace (Replace path ''{'' ''<'') ''}'' ''>''"

definition NewLocation ::
  "string \<Rightarrow> string list \<Rightarrow> string \<Rightarrow> string \<Rightarrow> 'm list \<Rightarrow> 'm Location" where
  "NewLocation host methods path upstream middlewares =
     (let path = convertPath path in
      \<lparr>ID = makeLocationID methods path,
       Host = host,
       Path = makeLocationPath methods path,
       Upstream = upstream,
       Options = \<lparr>FailoverPredicate = defaultFailoverPredicate\<rparr>,
       Middlewares = middlewares\<rparr>)"




section \<open>The coordination store, as the registries see it\<close>

text \<open>
  Both registries talk to etcd through a client.  The store is an external collaborator:
  a request either succeeds or returns an error, and which of the two is not decided by
  this code.  The client is modelled by the history of the requests issued through it,
  each with its outcome; the outcome of the next request is drawn from a parameter
  \<open>respond\<close> that may depend on the whole history.
\<close>

datatype request =
  Put string string "int option"
| Set string string nat
| Create string string nat
| CompareAndSwap string string nat string nat

fun request_key :: "request \<Rightarrow> string" where
  "request_key (Put k v l) = k"
| "request_key (Set k v t) = k"
| "request_key (Create k v t) = k"
| "request_key (CompareAndSwap k v t pv pi) = k"

record etcd_Client =
  history :: "(request \<times> error option) list"

definition succeeded :: "(request \<times> error option) list \<Rightarrow> bool" where
  "succeeded rs = list_all (\<lambda>x. snd x = None) rs"

definition client_do ::
  "((request \<times> error option) list \<Rightarrow> request \<Rightarrow> error option) \<Rightarrow>
   etcd_Client \<Rightarrow> request \<Rightarrow> error option \<times> etcd_Client" where
  "client_do respond c req =
     (let res = respond (history c) req
      in (res, c\<lparr>history := history c @ [(req, res)]\<rparr>))"

text \<open>\<open>errors.Wrap\<close> and \<open>errors.Wrapf\<close>: nil stays nil, an error gets the message in front.\<close>

definition Wrap :: "error option \<Rightarrow> string \<Rightarrow> error option" where
  "Wrap err message = (case err of None \<Rightarrow> None | Some e \<Rightarrow> Some (message @ '': '' @ e))"

definition Wrapf :: "error option \<Rightarrow> string \<Rightarrow> string list \<Rightarrow> error option" where
  "Wrapf err format args =
     (case err of None \<Rightarrow> None | Some e \<Rightarrow> Some (Sprintf format args @ '': '' @ e))"

section \<open>Package vulcand: the lease-based registry\<close>

definition localEtcdProxy :: string where "localEtcdProxy = ''127.0.0.1:2379''"
definition frontendFmt :: string where "frontendFmt = ''%s/frontends/%s.%s/frontend''"
definition middlewareFmt :: string where "middlewareFmt = ''%s/frontends/%s.%s/middlewares/%s''"
definition backendFmt :: string where "backendFmt = ''%s/backends/%s/backend''"
definition serverFmt :: string where "serverFmt = ''%s/backends/%s/servers/%s''"

text \<open>A \<open>time.Duration\<close> counts nanoseconds.\<close>

definition Second :: int where "Second = 1000000000"
definition defaultRegistrationTTL :: int where "defaultRegistrationTTL = 30 * Second"

text \<open>Of \<open>etcd.Config\<close> only the endpoints are set by this package.\<close>

record etcd_Config =
  Endpoints :: "string list"

record Config =
  Etcd :: "etcd_Config option"
  Chroot :: string
  TTL :: int

text \<open>
  Modelled from the spec: the types \<open>backendSpec\<close>, \<open>frontendSpec\<close> and \<open>Middleware\<close> of
  package vulcand are declared in files that are not part of the sources at hand.  The
  records carry those attributes of the specification's data model that the registry
  reads or writes; a middleware has further fields (its configuration), which is what
  the record's extension stands for.
\<close>

record backendSpec =
  AppName :: string
  ID :: string

record Middleware =
  ID :: string
  Priority :: int

record 'a frontendSpec =
  ID :: string
  Host :: string
  Middlewares :: "'a Middleware_scheme list"

text \<open>
  What the registry calls and does not define: the spec builders and their serialisers
  (same package, other files), \<open>json.Marshal\<close> and the \<open>%v\<close> rendering of structs, and
  the etcd client.  \<open>ctx\<close>, \<open>cancelFunc\<close> and \<open>wg\<close> of the source are the fields
  \<open>ctx_done\<close> (whether the context is cancelled) and \<open>wg\<close> (the WaitGroup's counter).
  \<open>watchers\<close> counts the goroutines that \<open>Start\<close> has launched.
\<close>

record 'a env =
  respond :: "(request \<times> error option) list \<Rightarrow> request \<Rightarrow> error option"
  newBackendSpec :: "string \<Rightarrow> string \<Rightarrow> int \<Rightarrow> error + backendSpec"
  newFrontendSpec ::
    "string \<Rightarrow> string \<Rightarrow> string \<Rightarrow> string list \<Rightarrow> 'a Middleware_scheme list \<Rightarrow> 'a frontendSpec"
  typeSpec :: "backendSpec \<Rightarrow> string"
  serverSpec :: "backendSpec \<Rightarrow> string"
  spec :: "'a frontendSpec \<Rightarrow> string"
  json_Marshal :: "'a Middleware_scheme \<Rightarrow> error + string"
  fmt_Middleware :: "'a Middleware_scheme \<Rightarrow> string"
  fmt_etcd_Config :: "etcd_Config \<Rightarrow> string"
  etcd_New :: "etcd_Config \<Rightarrow> error + etcd_Client"
  Grant :: "etcd_Client \<Rightarrow> int \<Rightarrow> error + int"
  KeepAlive :: "etcd_Client \<Rightarrow> int \<Rightarrow> error option"
  int64_Seconds :: "int \<Rightarrow> int"

record 'a Registry =
  cfg :: Config
  client :: etcd_Client
  backendSpec :: backendSpec
  frontendSpecs :: "'a frontendSpec list"
  ctx_done :: bool
  wg :: nat
  leaseID :: int
  watchers :: nat

definition NewRegistry ::
  "'a env \<Rightarrow> Config \<Rightarrow> string \<Rightarrow> string \<Rightarrow> int \<Rightarrow> error + 'a Registry" where
  "NewRegistry env cfg0 appName ip port =
     (case newBackendSpec env appName ip port of
        Inl err \<Rightarrow> Inl (''failed to create backend'' @ '': '' @ err)
      | Inr bes \<Rightarrow>
          let cfg1 = (if Config.TTL cfg0 \<le> 0 then cfg0\<lparr>Config.TTL := defaultRegistrationTTL\<rparr>
                      else cfg0);
              etcdCfg = (case Etcd cfg1 of
                           None \<Rightarrow> \<lparr>Endpoints = [localEtcdProxy]\<rparr>
                         | Some given \<Rightarrow> given);
              cfg2 = cfg1\<lparr>Etcd := Some etcdCfg\<rparr>
          in
          (case etcd_New env etcdCfg of
             Inl err \<Rightarrow>
               Inl (Sprintf ''failed to create Etcd client, cfg=%v'' [fmt_etcd_Config env etcdCfg]
                    @ '': '' @ err)
           | Inr cl \<Rightarrow>
               (case Grant env cl (int64_Seconds env (Config.TTL cfg2)) of
                  Inl err \<Rightarrow>
                    Inl (Sprintf ''failed to grant a new lease, cfg=%v'' [fmt_etcd_Config env etcdCfg]
                         @ '': '' @ err)
                | Inr respID \<Rightarrow>
                    (case KeepAlive env cl respID of
                       Some err \<Rightarrow>
                         Inl (Sprintf ''failed to start keep alive, cfg=%v''
                                [fmt_etcd_Config env etcdCfg] @ '': '' @ err)
                     | None \<Rightarrow>
                         Inr \<lparr>cfg = cfg2, client = cl, backendSpec = bes,
                              frontendSpecs = [], ctx_done = False, wg = 0,
                              leaseID = respID, watchers = 0\<rparr>))))"

definition AddFrontend ::
  "'a env \<Rightarrow> 'a Registry \<Rightarrow> string \<Rightarrow> string \<Rightarrow> string list \<Rightarrow> 'a Middleware_scheme list \<Rightarrow>
   'a Registry" where
  "AddFrontend env r host path methods middlewares =
     r\<lparr>frontendSpecs := frontendSpecs r @
          [newFrontendSpec env (AppName (backendSpec r)) host path methods middlewares]\<rparr>"

definition registerBackend ::
  "'a env \<Rightarrow> 'a Registry \<Rightarrow> backendSpec \<Rightarrow> error option \<times> 'a Registry" where
  "registerBackend env r bes =
     (let betKey = Sprintf backendFmt [Chroot (cfg r), AppName bes];
          betVal = typeSpec env bes
      in case client_do (respond env) (client r) (Put betKey betVal None) of
           (err, c) \<Rightarrow>
             let r = r\<lparr>client := c\<rparr> in
             if err \<noteq> None
             then (Wrapf err ''failed to set backend type, %s'' [betKey], r)
             else
               let besKey = Sprintf serverFmt [Chroot (cfg r), AppName bes, backendSpec.ID bes];
                   besVar = serverSpec env bes
               in case client_do (respond env) (client r) (Put besKey besVar (Some (leaseID r))) of
                    (err, c) \<Rightarrow>
                      (Wrapf err ''failed to set backend spec, %s'' [besKey], r\<lparr>client := c\<rparr>))"

text \<open>
  The loop over \<open>fes.Middlewares\<close> of \<open>registerFrontend\<close>, with the loop index \<open>i\<close>.
  The loop variable is a copy, so only the marshalled document sees the priority.
\<close>

fun registerMiddlewares ::
  "'a env \<Rightarrow> 'a Registry \<Rightarrow> 'a frontendSpec \<Rightarrow> nat \<Rightarrow> 'a Middleware_scheme list \<Rightarrow>
   error option \<times> 'a Registry" where
  "registerMiddlewares env r fes i [] = (None, r)"
| "registerMiddlewares env r fes i (mw # rest) =
     (let mw = mw\<lparr>Priority := int i\<rparr>;
          mwKey = Sprintf middlewareFmt
                    [Chroot (cfg r), frontendSpec.Host fes, frontendSpec.ID fes, Middleware.ID mw]
      in case json_Marshal env mw of
           Inl err \<Rightarrow> (Wrapf (Some err) ''failed to JSON middleware, %v'' [fmt_Middleware env mw], r)
         | Inr mwVal \<Rightarrow>
             (case client_do (respond env) (client r) (Put mwKey mwVal None) of
                (err, c) \<Rightarrow>
                  let r = r\<lparr>client := c\<rparr> in
                  if err \<noteq> None
                  then (Wrapf err ''failed to set middleware, %s'' [mwKey], r)
                  else registerMiddlewares env r fes (Suc i) rest))"

text \<open>The frontend record is put with a nil option, taken to add nothing to the request.\<close>

definition registerFrontend ::
  "'a env \<Rightarrow> 'a Registry \<Rightarrow> 'a frontendSpec \<Rightarrow> error option \<times> 'a Registry" where
  "registerFrontend env r fes =
     (let fesKey = Sprintf frontendFmt [Chroot (cfg r), frontendSpec.Host fes, frontendSpec.ID fes];
          fesVal = spec env fes
      in case client_do (respond env) (client r) (Put fesKey fesVal None) of
           (err, c) \<Rightarrow>
             let r = r\<lparr>client := c\<rparr> in
             if err \<noteq> None
             then (Wrapf err ''failed to set frontend spec, %s'' [fesKey], r)
             else registerMiddlewares env r fes 0 (frontendSpec.Middlewares fes))"

text \<open>The loop over \<open>r.frontendSpecs\<close> of \<open>Start\<close>; a failure calls \<open>r.cancelFunc()\<close>.\<close>

fun registerFrontends ::
  "'a env \<Rightarrow> 'a Registry \<Rightarrow> 'a frontendSpec list \<Rightarrow> error option \<times> 'a Registry" where
  "registerFrontends env r [] = (None, r)"
| "registerFrontends env r (fes # rest) =
     (case registerFrontend env r fes of
        (err, r) \<Rightarrow>
          if err \<noteq> None
          then (Wrapf err ''failed to register frontend, %s'' [frontendSpec.ID fes],
                r\<lparr>ctx_done := True\<rparr>)
          else registerFrontends env r rest)"

definition Start :: "'a env \<Rightarrow> 'a Registry \<Rightarrow> error option \<times> 'a Registry" where
  "Start env r =
     (case registerBackend env r (backendSpec r) of
        (err, r) \<Rightarrow>
          if err \<noteq> None
          then (Wrapf err ''failed to register backend, %s'' [backendSpec.ID (backendSpec r)], r)
          else
            let key = Sprintf serverFmt
                        [Chroot (cfg r), AppName (backendSpec r), backendSpec.ID (backendSpec r)]
            in case client_do (respond env) (client r)
                      (Put key (serverSpec env (backendSpec r)) (Some (leaseID r))) of
                 (err, c) \<Rightarrow>
                   let r = r\<lparr>client := c\<rparr> in
                   if err \<noteq> None
                   then (Wrap err ''failed to write backend spec'', r)
                   else
                     let r = r\<lparr>watchers := Suc (watchers r)\<rparr>
                     in registerFrontends env r (frontendSpecs r))"

subsection \<open>Stop and the revoke watcher\<close>

text \<open>
  \<open>Stop\<close> runs on the caller's thread while the goroutine launched by \<open>Start\<close> runs
  beside it.  The system is the registry together with the position of the caller
  inside \<open>Stop\<close>, the leases for which \<open>client.Revoke\<close> has been issued, and the number
  of watcher goroutines that have returned.  A step is taken by one thread; \<open>None\<close>
  means that the thread cannot move (it is blocked or has finished).

  The caller first calls \<open>r.cancelFunc()\<close> and then \<open>r.wg.Wait()\<close>, which returns once the
  WaitGroup's counter is zero.  A watcher waits for \<open>r.ctx.Done()\<close>, then issues the revoke
  and returns.
\<close>

datatype stop_pc = AtCancel | AtWait | Returned

datatype thread = StopCaller | Watcher

record 'a system =
  reg :: "'a Registry"
  stop_pc :: stop_pc
  revokes :: "int list"
  exited :: nat

definition after_Start :: "'a Registry \<Rightarrow> 'a system" where
  "after_Start r = \<lparr>reg = r, stop_pc = AtCancel, revokes = [], exited = 0\<rparr>"

fun step :: "thread \<Rightarrow> 'a system \<Rightarrow> 'a system option" where
  "step StopCaller s =
     (case stop_pc s of
        AtCancel \<Rightarrow> Some (s\<lparr>reg := (reg s)\<lparr>ctx_done := True\<rparr>, stop_pc := AtWait\<rparr>)
      | AtWait \<Rightarrow> if wg (reg s) = 0 then Some (s\<lparr>stop_pc := Returned\<rparr>) else None
      | Returned \<Rightarrow> None)"
| "step Watcher s =
     (if exited s < watchers (reg s) \<and> ctx_done (reg s)
      then Some (s\<lparr>revokes := revokes s @ [leaseID (reg s)], exited := Suc (exited s)\<rparr>)
      else None)"

fun run :: "thread list \<Rightarrow> 'a system \<Rightarrow> 'a system option" where
  "run [] s = Some s"
| "run (t # ts) s = (case step t s of None \<Rightarrow> None | Some s' \<Rightarrow> run ts s')"

section \<open>Package registry: the single-master registry\<close>

definition frontendKey :: string where "frontendKey = ''%s/frontends/%s.%s/frontend''"
definition middlewareKey :: string where "middlewareKey = ''%s/frontends/%s.%s/middlewares/%s''"
definition backendKey :: string where "backendKey = ''%s/backends/%s/backend''"
definition serverKey :: string where "serverKey = ''%s/backends/%s/servers/%s''"
definition masterNodeID :: string where "masterNodeID = ''master''"

record SingleMasterRegistry =
  Key :: string
  TTL :: nat
  IsMaster :: bool
  Client :: etcd_Client

text \<open>The new registry holds a fresh client, through which nothing has been requested yet.\<close>

definition NewSingleMasterRegistry :: "string \<Rightarrow> nat \<Rightarrow> SingleMasterRegistry" where
  "NewSingleMasterRegistry k ttl =
     \<lparr>Key = k, SingleMasterRegistry.TTL = ttl, IsMaster = False, Client = \<lparr>history = []\<rparr>\<rparr>"

text \<open>
  Modelled from the spec: \<open>AppRegistration\<close>, \<open>HandlerRegistration\<close> and
  \<open>vulcan.Endpoint\<close> are declared in files that are not part of the sources at hand; the
  records keep the fields the registry reads.  The endpoint's constructor and its two
  serialisers, the location's serialiser and \<open>json.Marshal\<close> are parameters.
\<close>

record AppRegistration =
  Name :: string
  Host :: string
  Port :: int

record 'a HandlerRegistration =
  Name :: string
  Host :: string
  Path :: string
  Methods :: "string list"
  Middlewares :: "'a Middleware_scheme list"

record Endpoint =
  ID :: string
  Name :: string

record 'a vulcan_env =
  respond :: "(request \<times> error option) list \<Rightarrow> request \<Rightarrow> error option"
  NewEndpointWithID :: "string \<Rightarrow> string \<Rightarrow> string \<Rightarrow> int \<Rightarrow> error + Endpoint"
  BackendSpec :: "Endpoint \<Rightarrow> error + string"
  ServerSpec :: "Endpoint \<Rightarrow> error + string"
  Spec :: "'a Middleware_scheme Location \<Rightarrow> error + string"
  json_Marshal :: "'a Middleware_scheme \<Rightarrow> error + string"

definition registerBackend_SM ::
  "'a vulcan_env \<Rightarrow> SingleMasterRegistry \<Rightarrow> Endpoint \<Rightarrow> error option \<times> SingleMasterRegistry" where
  "registerBackend_SM env s endpoint =
     (let key = Sprintf backendKey [Key s, Endpoint.Name endpoint]
      in case BackendSpec env endpoint of
           Inl err \<Rightarrow> (Some err, s)
         | Inr backend \<Rightarrow>
             (case client_do (vulcan_env.respond env) (Client s) (Set key backend 0) of
                (err, c) \<Rightarrow> (err, s\<lparr>Client := c\<rparr>)))"

definition assumeMasterRole ::
  "'a vulcan_env \<Rightarrow> SingleMasterRegistry \<Rightarrow> Endpoint \<Rightarrow> error option \<times> SingleMasterRegistry" where
  "assumeMasterRole env s endpoint =
     (let key = Sprintf serverKey [Key s, Endpoint.Name endpoint, Endpoint.ID endpoint]
      in case ServerSpec env endpoint of
           Inl err \<Rightarrow> (None, s)
         | Inr server \<Rightarrow>
             (case client_do (vulcan_env.respond env) (Client s)
                     (Create key server (SingleMasterRegistry.TTL s)) of
                (err, c) \<Rightarrow>
                  let s = s\<lparr>Client := c\<rparr> in
                  if err \<noteq> None then (err, s) else (None, s\<lparr>IsMaster := True\<rparr>)))"

definition maintainMasterRole ::
  "'a vulcan_env \<Rightarrow> SingleMasterRegistry \<Rightarrow> Endpoint \<Rightarrow> error option \<times> SingleMasterRegistry" where
  "maintainMasterRole env s endpoint =
     (let key = Sprintf serverKey [Key s, Endpoint.Name endpoint, Endpoint.ID endpoint]
      in case ServerSpec env endpoint of
           Inl err \<Rightarrow> (None, s)
         | Inr server \<Rightarrow>
             (case client_do (vulcan_env.respond env) (Client s)
                     (CompareAndSwap key server (SingleMasterRegistry.TTL s) server 0) of
                (err, c) \<Rightarrow>
                  let s = s\<lparr>Client := c\<rparr> in
                  if err \<noteq> None then (err, s\<lparr>IsMaster := False\<rparr>)
                  else (None, s\<lparr>IsMaster := True\<rparr>)))"

definition registerServer ::
  "'a vulcan_env \<Rightarrow> SingleMasterRegistry \<Rightarrow> Endpoint \<Rightarrow> error option \<times> SingleMasterRegistry" where
  "registerServer env s endpoint =
     (if IsMaster s then maintainMasterRole env s endpoint else assumeMasterRole env s endpoint)"

definition RegisterApp ::
  "'a vulcan_env \<Rightarrow> SingleMasterRegistry \<Rightarrow> AppRegistration \<Rightarrow>
   error option \<times> SingleMasterRegistry" where
  "RegisterApp env s registration =
     (case NewEndpointWithID env masterNodeID (AppRegistration.Name registration)
             (AppRegistration.Host registration) (AppRegistration.Port registration) of
        Inl err \<Rightarrow> (None, s)
      | Inr endpoint \<Rightarrow>
          (case registerBackend_SM env s endpoint of
             (err, s) \<Rightarrow>
               if err \<noteq> None then (err, s)
               else
                 (case registerServer env s endpoint of
                    (err, s) \<Rightarrow> if err \<noteq> None then (err, s) else (None, s))))"

definition registerFrontend_SM ::
  "'a vulcan_env \<Rightarrow> SingleMasterRegistry \<Rightarrow> 'a Middleware_scheme Location \<Rightarrow>
   error option \<times> SingleMasterRegistry" where
  "registerFrontend_SM env s location =
     (let key = Sprintf frontendKey [Key s, Location.Host location, Location.ID location]
      in case Spec env location of
           Inl err \<Rightarrow> (Some err, s)
         | Inr frontend \<Rightarrow>
             (case client_do (vulcan_env.respond env) (Client s) (Set key frontend 0) of
                (err, c) \<Rightarrow>
                  let s = s\<lparr>Client := c\<rparr> in
                  if err \<noteq> None then (err, s) else (None, s)))"

text \<open>The loop of \<open>registerMiddleware\<close> over \<open>location.Middlewares\<close>, with its index.\<close>

fun registerMiddleware_loop ::
  "'a vulcan_env \<Rightarrow> SingleMasterRegistry \<Rightarrow> 'a Middleware_scheme Location \<Rightarrow> nat \<Rightarrow>
   'a Middleware_scheme list \<Rightarrow> error option \<times> SingleMasterRegistry" where
  "registerMiddleware_loop env s location i [] = (None, s)"
| "registerMiddleware_loop env s location i (m # rest) =
     (let m = m\<lparr>Priority := int i\<rparr>;
          key = Sprintf middlewareKey
                  [Key s, Location.Host location, Location.ID location, Middleware.ID m]
      in case vulcan_env.json_Marshal env m of
           Inl err \<Rightarrow> (Some err, s)
         | Inr middleware \<Rightarrow>
             (case client_do (vulcan_env.respond env) (Client s) (Set key middleware 0) of
                (err, c) \<Rightarrow>
                  let s = s\<lparr>Client := c\<rparr> in
                  if err \<noteq> None then (err, s)
                  else registerMiddleware_loop env s location (Suc i) rest))"

definition registerMiddleware ::
  "'a vulcan_env \<Rightarrow> SingleMasterRegistry \<Rightarrow> 'a Middleware_scheme Location \<Rightarrow>
   error option \<times> SingleMasterRegistry" where
  "registerMiddleware env s location =
     registerMiddleware_loop env s location 0 (Location.Middlewares location)"

definition RegisterHandler ::
  "'a vulcan_env \<Rightarrow> SingleMasterRegistry \<Rightarrow> 'a HandlerRegistration \<Rightarrow>
   error option \<times> SingleMasterRegistry" where
  "RegisterHandler env s registration =
     (let location = NewLocation (HandlerRegistration.Host registration)
                       (HandlerRegistration.Methods registration)
                       (HandlerRegistration.Path registration)
                       (HandlerRegistration.Name registration)
                       (HandlerRegistration.Middlewares registration)
      in case registerFrontend_SM env s location of
           (err, s) \<Rightarrow>
             if err \<noteq> None then (err, s)
             else
               (case registerMiddleware env s location of
                  (err, s) \<Rightarrow> if err \<noteq> None then (err, s) else (None, s)))"

text \<open>
  The specification's account of what a frontend contributes to \<open>Start\<close>, for comparison
  with the code: its frontend record, then one record per middleware, the document of
  the middleware at position \<open>k\<close> being the middleware marshalled with \<open>Priority = k\<close>;
  none of them under a lease.
\<close>

definition document :: "'a env \<Rightarrow> 'a Middleware_scheme \<Rightarrow> string" where
  "document env mw = (case env.json_Marshal env mw of Inl err \<Rightarrow> [] | Inr doc \<Rightarrow> doc)"

definition marshals :: "'a env \<Rightarrow> 'a Middleware_scheme \<Rightarrow> bool" where
  "marshals env mw = (case env.json_Marshal env mw of Inl err \<Rightarrow> False | Inr doc \<Rightarrow> True)"

definition spec_middleware_put ::
  "'a env \<Rightarrow> string \<Rightarrow> 'a frontendSpec \<Rightarrow> nat \<times> 'a Middleware_scheme \<Rightarrow> request" where
  "spec_middleware_put env chroot fes p =
     Put (chroot @ ''/frontends/'' @ frontendSpec.Host fes @ ''.'' @ frontendSpec.ID fes
            @ ''/middlewares/'' @ Middleware.ID (snd p))
         (document env ((snd p)\<lparr>Priority := int (fst p)\<rparr>)) None"

definition spec_frontend_puts :: "'a env \<Rightarrow> string \<Rightarrow> 'a frontendSpec \<Rightarrow> request list" where
  "spec_frontend_puts env chroot fes =
     Put (chroot @ ''/frontends/'' @ frontendSpec.Host fes @ ''.'' @ frontendSpec.ID fes
            @ ''/frontend'')
         (env.spec env fes) None
     # map (spec_middleware_put env chroot fes) (enumerate 0 (frontendSpec.Middlewares fes))"

section \<open>A concrete environment\<close>

text \<open>
  For running the definitions on examples: a store that answers every request with
  success except the one with the given position in the history, spec builders that
  print small documents, and \<open>json.Marshal\<close> printing a middleware's ID and priority.
\<close>

definition demo_env :: "nat option \<Rightarrow> unit env" where
  \<open>demo_env failing =
     \<lparr>env.respond = (\<lambda>h q. if Some (length h) = failing
                         then Some ''etcdserver: request timed out'' else None),
      newBackendSpec = (\<lambda>appName ip port. Inr \<lparr>AppName = appName, backendSpec.ID = ip\<rparr>),
      newFrontendSpec = (\<lambda>appName host path methods middlewares.
         \<lparr>frontendSpec.ID = makeLocationID methods (convertPath path), frontendSpec.Host = host,
          frontendSpec.Middlewares = middlewares\<rparr>),
      typeSpec = (\<lambda>bes. ''{"Type":"http"}''),
      serverSpec = (\<lambda>bes. ''{"URL":"http://'' @ backendSpec.ID bes @ ''"}''),
      spec = (\<lambda>fes. ''{"Host":"'' @ frontendSpec.Host fes @ ''"}''),
      env.json_Marshal = (\<lambda>mw. Inr (''{"ID":"'' @ Middleware.ID mw @ ''","Priority":''
         @ (if Priority mw = 0 then ''0'' else if Priority mw = 1 then ''1'' else ''2'') @ ''}'')),
      fmt_Middleware = (\<lambda>mw. Middleware.ID mw),
      fmt_etcd_Config = (\<lambda>c. Join (Endpoints c) '' ''),
      etcd_New = (\<lambda>c. Inr \<lparr>history = []\<rparr>),
      Grant = (\<lambda>c ttl. Inr 7),
      KeepAlive = (\<lambda>c l. None),
      int64_Seconds = (\<lambda>d. d div Second)\<rparr>\<close>

definition demo_new :: "error + unit Registry" where
  "demo_new = NewRegistry (demo_env None) \<lparr>Etcd = None, Chroot = ''/vulcand'', Config.TTL = 0\<rparr>
                ''app'' ''10.0.0.1'' 8080"

definition demo_registry :: "unit Registry" where
  "demo_registry =
     (case demo_new of
        Inl err \<Rightarrow> undefined
      | Inr r \<Rightarrow>
          AddFrontend (demo_env None)
            (AddFrontend (demo_env None) r ''api'' ''/hello'' [''GET'']
               [\<lparr>Middleware.ID = ''auth'', Priority = 5\<rparr>, \<lparr>Middleware.ID = ''limit'', Priority = 5\<rparr>])
            ''api'' ''/bye/{id}'' [''GET'', ''POST''] [\<lparr>Middleware.ID = ''auth'', Priority = 9\<rparr>])"


definition demo_vulcan_env :: "unit vulcan_env" where
  \<open>demo_vulcan_env =
     \<lparr>vulcan_env.respond = (\<lambda>h q. None),
      NewEndpointWithID = (\<lambda>i name host port.
         if port < 1 \<or> 65535 < port then Inl ''invalid port''
         else Inr \<lparr>Endpoint.ID = i, Endpoint.Name = name\<rparr>),
      BackendSpec = (\<lambda>e. Inr ''{"Type":"http"}''),
      ServerSpec = (\<lambda>e. if Endpoint.ID e = [] then Inl ''endpoint without ID''
                         else Inr ''{"URL":"http://localhost"}''),
      Spec = (\<lambda>l. Inr (''{"Host":"'' @ Location.Host l @ ''"}'')),
      vulcan_env.json_Marshal = (\<lambda>mw. Inr (''{"ID":"'' @ Middleware.ID mw @ ''"}''))\<rparr>\<close>

section \<open>Facts about the library functions\<close>




lemma Sprintf_vv: "Sprintf ''%v%v'' [a, b] = a @ b"
  by simp














section \<open>Locations: IDs, match expressions and options\<close>






text \<open>Without methods the code still prints one (empty) quoted method.\<close>

lemma match_expr_no_methods:
  \<open>Location.Path (NewLocation host [] ''/hello'' upstream mws) = ''TrieRoute("", "/hello")''\<close>
  by code_simp


text \<open>
  Claim C10.  \<open>MarshalJSON\<close> returns, for every failover predicate, the document
  \<open>{"FailoverPredicate": "<predicate>"}\<close> and a nil error.
\<close>

theorem MarshalJSON_total:
  \<open>MarshalJSON opts = (''{"FailoverPredicate": "'' @ FailoverPredicate opts @ ''"}'', None)\<close>
  by (simp add: MarshalJSON_def)




section \<open>The registry: what Start writes and how it fails\<close>

lemma client_do_eq:
  "client_do f c req = (f (history c) req, c\<lparr>history := history c @ [(req, f (history c) req)]\<rparr>)"
  by (simp add: client_do_def Let_def)

lemma succeeded_simps:
  "succeeded []" "succeeded (x # xs) = (snd x = None \<and> succeeded xs)"
  "succeeded (xs @ ys) = (succeeded xs \<and> succeeded ys)"
  by (simp_all add: succeeded_def)

lemma middlewareFmt_eq:
  "Sprintf middlewareFmt [c, h, i, m] = c @ ''/frontends/'' @ h @ ''.'' @ i @ ''/middlewares/'' @ m"
  by (simp add: middlewareFmt_def)

lemma frontendFmt_eq:
  "Sprintf frontendFmt [c, h, i] = c @ ''/frontends/'' @ h @ ''.'' @ i @ ''/frontend''"
  by (simp add: frontendFmt_def)

lemma backendFmt_eq:
  "Sprintf backendFmt [c, a] = c @ ''/backends/'' @ a @ ''/backend''"
  by (simp add: backendFmt_def)

lemma serverFmt_eq:
  "Sprintf serverFmt [c, a, i] = c @ ''/backends/'' @ a @ ''/servers/'' @ i"
  by (simp add: serverFmt_def)

lemma Wrapf_Some_s: "Wrapf (Some e) (pre @ ''%s'') [k] = Some (Sprintf (pre @ ''%s'') [k] @ '': '' @ e)"
  by (simp add: Wrapf_def)

lemma registerMiddlewares_effect:
  "registerMiddlewares env r fes i mws = (err, r') \<Longrightarrow>
   \<exists>new. r' = r\<lparr>client := (client r)\<lparr>history := history (client r) @ new\<rparr>\<rparr> \<and>
         succeeded (butlast new) \<and>
         (err = None \<longrightarrow> succeeded new \<and>
            map fst new = map (spec_middleware_put env (Chroot (cfg r)) fes) (enumerate i mws) \<and>
            list_all (\<lambda>p. marshals env ((snd p)\<lparr>Priority := int (fst p)\<rparr>)) (enumerate i mws)) \<and>
         (\<forall>q e. new \<noteq> [] \<and> last new = (q, Some e) \<longrightarrow>
            err = Some (''failed to set middleware, '' @ request_key q @ '': '' @ e))"
proof (induction mws arbitrary: r i)
  case Nil
  then show ?case by (auto simp: succeeded_simps intro!: exI [of _ "[]"])
next
  case (Cons mw rest)
  show ?case
  proof (cases "env.json_Marshal env (mw\<lparr>Priority := int i\<rparr>)")
    case (Inl e)
    with Cons.prems have "r' = r" "err \<noteq> None"
      by (auto simp: Let_def Wrapf_def)
    then show ?thesis by (auto simp: succeeded_simps intro!: exI [of _ "[]"])
  next
    case (Inr v)
    let ?k = "Chroot (cfg r) @ ''/frontends/'' @ frontendSpec.Host fes @ ''.'' @ frontendSpec.ID fes
                @ ''/middlewares/'' @ Middleware.ID mw"
    let ?q = "Put ?k v None"
    let ?res = "env.respond env (history (client r)) ?q"
    let ?r1 = "r\<lparr>client := (client r)\<lparr>history := history (client r) @ [(?q, ?res)]\<rparr>\<rparr>"
    have q: "spec_middleware_put env (Chroot (cfg r)) fes (i, mw) = ?q"
      using Inr by (simp add: spec_middleware_put_def document_def)
    have m: "marshals env (mw\<lparr>Priority := int i\<rparr>)"
      using Inr by (simp add: marshals_def)
    show ?thesis
    proof (cases ?res)
      case None
      with Cons.prems Inr have "registerMiddlewares env ?r1 fes (Suc i) rest = (err, r')"
        by (simp add: Let_def client_do_eq middlewareFmt_eq)
      from Cons.IH [OF this] obtain new where new:
        "r' = ?r1\<lparr>client := (client ?r1)\<lparr>history := history (client ?r1) @ new\<rparr>\<rparr>"
        "succeeded (butlast new)"
        "err = None \<longrightarrow> succeeded new \<and>
            map fst new = map (spec_middleware_put env (Chroot (cfg ?r1)) fes) (enumerate (Suc i) rest) \<and>
            list_all (\<lambda>p. marshals env ((snd p)\<lparr>Priority := int (fst p)\<rparr>)) (enumerate (Suc i) rest)"
        "\<forall>q e. new \<noteq> [] \<and> last new = (q, Some e) \<longrightarrow>
            err = Some (''failed to set middleware, '' @ request_key q @ '': '' @ e)"
        by blast
      let ?new = "(?q, ?res) # new"
      have 1: "r' = r\<lparr>client := (client r)\<lparr>history := history (client r) @ ?new\<rparr>\<rparr>"
        using new(1) by simp
      have 2: "succeeded (butlast ?new)"
        using new(2) None by (simp add: succeeded_simps)
      have 3: "err = None \<longrightarrow> succeeded ?new \<and>
            map fst ?new = map (spec_middleware_put env (Chroot (cfg r)) fes) (enumerate i (mw # rest)) \<and>
            list_all (\<lambda>p. marshals env ((snd p)\<lparr>Priority := int (fst p)\<rparr>)) (enumerate i (mw # rest))"
        using new(3) None q m by (simp add: succeeded_simps)
      have 4: "\<forall>q e. ?new \<noteq> [] \<and> last ?new = (q, Some e) \<longrightarrow>
            err = Some (''failed to set middleware, '' @ request_key q @ '': '' @ e)"
        using new(4) None by simp
      from 1 2 3 4 show ?thesis by blast
    next
      case (Some e)
      with Cons.prems Inr have r': "r' = ?r1"
        and err: "err = Some (''failed to set middleware, '' @ ?k @ '': '' @ e)"
        by (simp_all add: Let_def client_do_eq middlewareFmt_eq Wrapf_def)
      let ?new = "[(?q, ?res)]"
      have 1: "r' = r\<lparr>client := (client r)\<lparr>history := history (client r) @ ?new\<rparr>\<rparr>"
        using r' by simp
      have 2: "succeeded (butlast ?new)" by (simp add: succeeded_simps)
      have 3: "err \<noteq> None" using err by simp
      have 4: "\<forall>q e. ?new \<noteq> [] \<and> last ?new = (q, Some e) \<longrightarrow>
            err = Some (''failed to set middleware, '' @ request_key q @ '': '' @ e)"
        using err Some by simp
      from 1 2 3 4 show ?thesis by blast
    qed
  qed
qed

lemma registerFrontend_effect:
  "registerFrontend env r fes = (err, r') \<Longrightarrow>
   \<exists>new. r' = r\<lparr>client := (client r)\<lparr>history := history (client r) @ new\<rparr>\<rparr> \<and>
         new \<noteq> [] \<and> succeeded (butlast new) \<and>
         (err = None \<longrightarrow> succeeded new \<and>
            map fst new = spec_frontend_puts env (Chroot (cfg r)) fes \<and>
            list_all (\<lambda>p. marshals env ((snd p)\<lparr>Priority := int (fst p)\<rparr>))
              (enumerate 0 (frontendSpec.Middlewares fes))) \<and>
         (\<forall>q e. last new = (q, Some e) \<longrightarrow>
            (\<exists>pre. err = Some (pre @ request_key q @ '': '' @ e)))"
proof -
  assume a: "registerFrontend env r fes = (err, r')"
  let ?k = "Chroot (cfg r) @ ''/frontends/'' @ frontendSpec.Host fes @ ''.'' @ frontendSpec.ID fes
              @ ''/frontend''"
  let ?q = "Put ?k (env.spec env fes) None"
  let ?res = "env.respond env (history (client r)) ?q"
  let ?r1 = "r\<lparr>client := (client r)\<lparr>history := history (client r) @ [(?q, ?res)]\<rparr>\<rparr>"
  show ?thesis
  proof (cases ?res)
    case None
    with a have "registerMiddlewares env ?r1 fes 0 (frontendSpec.Middlewares fes) = (err, r')"
      by (simp add: registerFrontend_def Let_def client_do_eq frontendFmt_eq)
    from registerMiddlewares_effect [OF this] obtain new where new:
      "r' = ?r1\<lparr>client := (client ?r1)\<lparr>history := history (client ?r1) @ new\<rparr>\<rparr>"
      "succeeded (butlast new)"
      "err = None \<longrightarrow> succeeded new \<and>
          map fst new = map (spec_middleware_put env (Chroot (cfg ?r1)) fes)
                          (enumerate 0 (frontendSpec.Middlewares fes)) \<and>
          list_all (\<lambda>p. marshals env ((snd p)\<lparr>Priority := int (fst p)\<rparr>))
            (enumerate 0 (frontendSpec.Middlewares fes))"
      "\<forall>q e. new \<noteq> [] \<and> last new = (q, Some e) \<longrightarrow>
          err = Some (''failed to set middleware, '' @ request_key q @ '': '' @ e)"
      by blast
    let ?new = "(?q, ?res) # new"
    have 1: "r' = r\<lparr>client := (client r)\<lparr>history := history (client r) @ ?new\<rparr>\<rparr>"
      using new(1) by simp
    have 2: "succeeded (butlast ?new)"
      using new(2) None by (simp add: succeeded_simps)
    have 3: "err = None \<longrightarrow> succeeded ?new \<and>
          map fst ?new = spec_frontend_puts env (Chroot (cfg r)) fes \<and>
          list_all (\<lambda>p. marshals env ((snd p)\<lparr>Priority := int (fst p)\<rparr>))
            (enumerate 0 (frontendSpec.Middlewares fes))"
      using new(3) None by (simp add: succeeded_simps spec_frontend_puts_def)
    have 4: "\<forall>q e. last ?new = (q, Some e) \<longrightarrow>
          (\<exists>pre. err = Some (pre @ request_key q @ '': '' @ e))"
    proof (intro allI impI)
      fix q e assume l: "last ?new = (q, Some e)"
      with None have ne: "new \<noteq> []" by (cases new) auto
      with l have "last new = (q, Some e)" by simp
      with ne new(4) have "err = Some (''failed to set middleware, '' @ request_key q @ '': '' @ e)"
        by blast
      then show "\<exists>pre. err = Some (pre @ request_key q @ '': '' @ e)" by blast
    qed
    have 5: "?new \<noteq> []" by simp
    from 1 5 2 3 4 show ?thesis by blast
  next
    case (Some e)
    with a have r': "r' = ?r1"
      and err: "err = Some (''failed to set frontend spec, '' @ ?k @ '': '' @ e)"
      by (simp_all add: registerFrontend_def Let_def client_do_eq frontendFmt_eq Wrapf_def)
    let ?new = "[(?q, ?res)]"
    have 1: "r' = r\<lparr>client := (client r)\<lparr>history := history (client r) @ ?new\<rparr>\<rparr>"
      using r' by simp
    have 2: "succeeded (butlast ?new)" by (simp add: succeeded_simps)
    have 3: "err \<noteq> None" using err by simp
    have 4: "\<forall>q e. last ?new = (q, Some e) \<longrightarrow>
          (\<exists>pre. err = Some (pre @ request_key q @ '': '' @ e))"
      using err Some by auto
    have 5: "?new \<noteq> []" by simp
    from 1 5 2 3 4 show ?thesis by blast
  qed
qed

lemma butlast_append_nonempty: "ys \<noteq> [] \<Longrightarrow> butlast (xs @ ys) = xs @ butlast ys"
  by (simp add: butlast_append)

lemma registerFrontends_effect:
  "registerFrontends env r fs = (err, r') \<Longrightarrow>
   \<exists>new. r' = r\<lparr>client := (client r)\<lparr>history := history (client r) @ new\<rparr>,
                    ctx_done := (ctx_done r \<or> err \<noteq> None)\<rparr> \<and>
         (err \<noteq> None \<longrightarrow> new \<noteq> []) \<and> succeeded (butlast new) \<and>
         (err = None \<longrightarrow> succeeded new \<and>
            map fst new = concat (map (spec_frontend_puts env (Chroot (cfg r))) fs) \<and>
            list_all (\<lambda>fes. list_all (\<lambda>p. marshals env ((snd p)\<lparr>Priority := int (fst p)\<rparr>))
              (enumerate 0 (frontendSpec.Middlewares fes))) fs) \<and>
         (\<forall>q e. new \<noteq> [] \<and> last new = (q, Some e) \<longrightarrow>
            (\<exists>pre. err = Some (pre @ request_key q @ '': '' @ e)))"
proof (induction fs arbitrary: r)
  case Nil
  then show ?case by (auto simp: succeeded_simps intro!: exI [of _ "[]"])
next
  case (Cons fes rest)
  obtain e1 r1 where rf: "registerFrontend env r fes = (e1, r1)"
    by (cases "registerFrontend env r fes")
  from registerFrontend_effect [OF rf] obtain n1 where n1:
    "r1 = r\<lparr>client := (client r)\<lparr>history := history (client r) @ n1\<rparr>\<rparr>"
    "n1 \<noteq> []" "succeeded (butlast n1)"
    "e1 = None \<longrightarrow> succeeded n1 \<and>
        map fst n1 = spec_frontend_puts env (Chroot (cfg r)) fes \<and>
        list_all (\<lambda>p. marshals env ((snd p)\<lparr>Priority := int (fst p)\<rparr>))
          (enumerate 0 (frontendSpec.Middlewares fes))"
    "\<forall>q e. last n1 = (q, Some e) \<longrightarrow> (\<exists>pre. e1 = Some (pre @ request_key q @ '': '' @ e))"
    by blast
  show ?case
  proof (cases e1)
    case None
    with Cons.prems rf have "registerFrontends env r1 rest = (err, r')" by simp
    from Cons.IH [OF this] obtain n2 where n2:
      "r' = r1\<lparr>client := (client r1)\<lparr>history := history (client r1) @ n2\<rparr>,
                ctx_done := (ctx_done r1 \<or> err \<noteq> None)\<rparr>"
      "err \<noteq> None \<longrightarrow> n2 \<noteq> []" "succeeded (butlast n2)"
      "err = None \<longrightarrow> succeeded n2 \<and>
          map fst n2 = concat (map (spec_frontend_puts env (Chroot (cfg r1))) rest) \<and>
          list_all (\<lambda>fes. list_all (\<lambda>p. marshals env ((snd p)\<lparr>Priority := int (fst p)\<rparr>))
            (enumerate 0 (frontendSpec.Middlewares fes))) rest"
      "\<forall>q e. n2 \<noteq> [] \<and> last n2 = (q, Some e) \<longrightarrow>
          (\<exists>pre. err = Some (pre @ request_key q @ '': '' @ e))"
      by blast
    have ok1: "succeeded n1" using n1(4) None by simp
    let ?new = "n1 @ n2"
    have 1: "r' = r\<lparr>client := (client r)\<lparr>history := history (client r) @ ?new\<rparr>,
                    ctx_done := (ctx_done r \<or> err \<noteq> None)\<rparr>"
      using n2(1) n1(1) by simp
    have 2: "err \<noteq> None \<longrightarrow> ?new \<noteq> []" using n1(2) by simp
    have 3: "succeeded (butlast ?new)"
    proof (cases "n2 = []")
      case True
      then show ?thesis using n1(3) by simp
    next
      case False
      then show ?thesis using ok1 n2(3) by (simp add: butlast_append_nonempty succeeded_simps)
    qed
    have 4: "err = None \<longrightarrow> succeeded ?new \<and>
          map fst ?new = concat (map (spec_frontend_puts env (Chroot (cfg r))) (fes # rest)) \<and>
          list_all (\<lambda>fes. list_all (\<lambda>p. marshals env ((snd p)\<lparr>Priority := int (fst p)\<rparr>))
            (enumerate 0 (frontendSpec.Middlewares fes))) (fes # rest)"
      using n2(4) n1(4) n1(1) None by (simp add: succeeded_simps)
    have 5: "\<forall>q e. ?new \<noteq> [] \<and> last ?new = (q, Some e) \<longrightarrow>
          (\<exists>pre. err = Some (pre @ request_key q @ '': '' @ e))"
    proof (intro allI impI)
      fix q e assume l: "?new \<noteq> [] \<and> last ?new = (q, Some e)"
      have "n2 \<noteq> []"
      proof
        assume "n2 = []"
        with l have "last n1 = (q, Some e)" by simp
        moreover have "last n1 \<in> set n1" using n1(2) by simp
        ultimately show False using ok1 by (auto simp: succeeded_def list_all_iff)
      qed
      with l n2(5) show "\<exists>pre. err = Some (pre @ request_key q @ '': '' @ e)" by simp
    qed
    from 1 2 3 4 5 show ?thesis by blast
  next
    case (Some e0)
    with Cons.prems rf have r': "r' = r1\<lparr>ctx_done := True\<rparr>"
      and err: "err = Some (''failed to register frontend, '' @ frontendSpec.ID fes @ '': '' @ e0)"
      by (simp_all add: Wrapf_def)
    have 1: "r' = r\<lparr>client := (client r)\<lparr>history := history (client r) @ n1\<rparr>,
                    ctx_done := (ctx_done r \<or> err \<noteq> None)\<rparr>"
      using r' n1(1) err by simp
    have 2: "err \<noteq> None" using err by simp
    have 5: "\<forall>q e. n1 \<noteq> [] \<and> last n1 = (q, Some e) \<longrightarrow>
          (\<exists>pre. err = Some (pre @ request_key q @ '': '' @ e))"
    proof (intro allI impI)
      fix q e assume "n1 \<noteq> [] \<and> last n1 = (q, Some e)"
      with n1(5) obtain pre where "e1 = Some (pre @ request_key q @ '': '' @ e)" by blast
      with Some have "e0 = pre @ request_key q @ '': '' @ e" by simp
      with err have "err = Some ((''failed to register frontend, '' @ frontendSpec.ID fes @ '': '' @ pre)
                                   @ request_key q @ '': '' @ e)"
        by simp
      then show "\<exists>pre. err = Some (pre @ request_key q @ '': '' @ e)" by blast
    qed
    from 1 2 n1(2) n1(3) 5 show ?thesis by blast
  qed
qed

lemma Start_effect:
  "Start env r = (err, r') \<Longrightarrow>
   \<exists>new. r' = r\<lparr>client := (client r)\<lparr>history := history (client r) @ new\<rparr>,
                    ctx_done := (ctx_done r \<or> (err \<noteq> None \<and> 3 < length new)),
                    watchers := (if err = None \<or> 3 < length new then Suc (watchers r)
                                 else watchers r)\<rparr> \<and>
         new \<noteq> [] \<and> succeeded (butlast new) \<and>
         (err = None \<longrightarrow> succeeded new \<and>
            map fst new =
              [Put (Chroot (cfg r) @ ''/backends/'' @ AppName (backendSpec r) @ ''/backend'')
                   (typeSpec env (backendSpec r)) None,
               Put (Chroot (cfg r) @ ''/backends/'' @ AppName (backendSpec r) @ ''/servers/''
                      @ backendSpec.ID (backendSpec r))
                   (serverSpec env (backendSpec r)) (Some (leaseID r)),
               Put (Chroot (cfg r) @ ''/backends/'' @ AppName (backendSpec r) @ ''/servers/''
                      @ backendSpec.ID (backendSpec r))
                   (serverSpec env (backendSpec r)) (Some (leaseID r))]
              @ concat (map (spec_frontend_puts env (Chroot (cfg r))) (frontendSpecs r)) \<and>
            list_all (\<lambda>fes. list_all (\<lambda>p. marshals env ((snd p)\<lparr>Priority := int (fst p)\<rparr>))
              (enumerate 0 (frontendSpec.Middlewares fes))) (frontendSpecs r)) \<and>
         (\<forall>q e. last new = (q, Some e) \<longrightarrow>
            (\<exists>pre. err = Some (pre @ '': '' @ e)) \<and>
            (length new \<noteq> 3 \<longrightarrow> (\<exists>pre. err = Some (pre @ request_key q @ '': '' @ e))))"
proof -
  assume a: "Start env r = (err, r')"
  let ?H = "history (client r)"
  let ?bk = "Chroot (cfg r) @ ''/backends/'' @ AppName (backendSpec r) @ ''/backend''"
  let ?sk = "Chroot (cfg r) @ ''/backends/'' @ AppName (backendSpec r) @ ''/servers/''
               @ backendSpec.ID (backendSpec r)"
  let ?q1 = "Put ?bk (typeSpec env (backendSpec r)) None"
  let ?q2 = "Put ?sk (serverSpec env (backendSpec r)) (Some (leaseID r))"
  let ?res1 = "env.respond env ?H ?q1"
  let ?res2 = "env.respond env (?H @ [(?q1, None)]) ?q2"
  let ?res3 = "env.respond env (?H @ [(?q1, None), (?q2, None)]) ?q2"
  show ?thesis
  proof (cases ?res1)
    case (Some e)
    let ?new = "[(?q1, Some e)]"
    from a Some have r': "r' = r\<lparr>client := (client r)\<lparr>history := ?H @ ?new\<rparr>\<rparr>"
      and err: "err = Some ((''failed to register backend, '' @ backendSpec.ID (backendSpec r)
                  @ '': failed to set backend type, '') @ ?bk @ '': '' @ e)"
      by (simp_all add: Start_def registerBackend_def Let_def client_do_eq backendFmt_eq Wrapf_def)
    have 1: "r' = r\<lparr>client := (client r)\<lparr>history := ?H @ ?new\<rparr>,
                    ctx_done := (ctx_done r \<or> (err \<noteq> None \<and> 3 < length ?new)),
                    watchers := (if err = None \<or> 3 < length ?new then Suc (watchers r)
                                 else watchers r)\<rparr>"
      using r' err by simp
    have 2: "succeeded (butlast ?new)" by (simp add: succeeded_simps)
    have 3: "err \<noteq> None" using err by simp
    have 4: "\<forall>q e'. last ?new = (q, Some e') \<longrightarrow>
            (\<exists>pre. err = Some (pre @ '': '' @ e')) \<and>
            (length ?new \<noteq> 3 \<longrightarrow> (\<exists>pre. err = Some (pre @ request_key q @ '': '' @ e')))"
    proof (intro allI impI)
      fix q e' assume "last ?new = (q, Some e')"
      then have "q = ?q1" "e' = e" by simp_all
      with err have k: "err = Some ((''failed to register backend, '' @ backendSpec.ID (backendSpec r)
                  @ '': failed to set backend type, '') @ request_key q @ '': '' @ e')"
        by simp
      then have "err = Some (((''failed to register backend, '' @ backendSpec.ID (backendSpec r)
                  @ '': failed to set backend type, '') @ request_key q) @ '': '' @ e')"
        by simp
      with k show "(\<exists>pre. err = Some (pre @ '': '' @ e')) \<and>
            (length ?new \<noteq> 3 \<longrightarrow> (\<exists>pre. err = Some (pre @ request_key q @ '': '' @ e')))"
        by blast
    qed
    have 5: "?new \<noteq> []" by simp
    from 1 5 2 3 4 show ?thesis by blast
  next
    case None
    note n1 = this
    show ?thesis
    proof (cases ?res2)
      case (Some e)
      let ?new = "[(?q1, None), (?q2, Some e)]"
      from a n1 Some have r': "r' = r\<lparr>client := (client r)\<lparr>history := ?H @ ?new\<rparr>\<rparr>"
        and err: "err = Some ((''failed to register backend, '' @ backendSpec.ID (backendSpec r)
                    @ '': failed to set backend spec, '') @ ?sk @ '': '' @ e)"
        by (simp_all add: Start_def registerBackend_def Let_def client_do_eq backendFmt_eq
              serverFmt_eq Wrapf_def)
      have 1: "r' = r\<lparr>client := (client r)\<lparr>history := ?H @ ?new\<rparr>,
                      ctx_done := (ctx_done r \<or> (err \<noteq> None \<and> 3 < length ?new)),
                      watchers := (if err = None \<or> 3 < length ?new then Suc (watchers r)
                                   else watchers r)\<rparr>"
        using r' err by simp
      have 2: "succeeded (butlast ?new)" by (simp add: succeeded_simps)
      have 3: "err \<noteq> None" using err by simp
      have 4: "\<forall>q e'. last ?new = (q, Some e') \<longrightarrow>
              (\<exists>pre. err = Some (pre @ '': '' @ e')) \<and>
              (length ?new \<noteq> 3 \<longrightarrow> (\<exists>pre. err = Some (pre @ request_key q @ '': '' @ e')))"
      proof (intro allI impI)
        fix q e' assume "last ?new = (q, Some e')"
        then have "q = ?q2" "e' = e" by simp_all
        with err have k: "err = Some ((''failed to register backend, '' @ backendSpec.ID (backendSpec r)
                    @ '': failed to set backend spec, '') @ request_key q @ '': '' @ e')"
          by simp
        then have "err = Some (((''failed to register backend, '' @ backendSpec.ID (backendSpec r)
                    @ '': failed to set backend spec, '') @ request_key q) @ '': '' @ e')"
          by simp
        with k show "(\<exists>pre. err = Some (pre @ '': '' @ e')) \<and>
              (length ?new \<noteq> 3 \<longrightarrow> (\<exists>pre. err = Some (pre @ request_key q @ '': '' @ e')))"
          by blast
      qed
      have 5: "?new \<noteq> []" by simp
      from 1 5 2 3 4 show ?thesis by blast
    next
      case None
      note n2 = this
      show ?thesis
      proof (cases ?res3)
        case (Some e)
        let ?new = "[(?q1, None), (?q2, None), (?q2, Some e)]"
        from a n1 n2 Some have r': "r' = r\<lparr>client := (client r)\<lparr>history := ?H @ ?new\<rparr>\<rparr>"
          and err: "err = Some (''failed to write backend spec'' @ '': '' @ e)"
          by (simp_all add: Start_def registerBackend_def Let_def client_do_eq backendFmt_eq
                serverFmt_eq Wrapf_def Wrap_def)
        have 1: "r' = r\<lparr>client := (client r)\<lparr>history := ?H @ ?new\<rparr>,
                        ctx_done := (ctx_done r \<or> (err \<noteq> None \<and> 3 < length ?new)),
                        watchers := (if err = None \<or> 3 < length ?new then Suc (watchers r)
                                     else watchers r)\<rparr>"
          using r' err by simp
        have 2: "succeeded (butlast ?new)" by (simp add: succeeded_simps)
        have 3: "err \<noteq> None" using err by simp
        have 4: "\<forall>q e'. last ?new = (q, Some e') \<longrightarrow>
                (\<exists>pre. err = Some (pre @ '': '' @ e')) \<and>
                (length ?new \<noteq> 3 \<longrightarrow> (\<exists>pre. err = Some (pre @ request_key q @ '': '' @ e')))"
          using err by auto
        have 5: "?new \<noteq> []" by simp
        from 1 5 2 3 4 show ?thesis by blast
      next
        case None
        note n3 = this
        let ?n0 = "[(?q1, None), (?q2, None), (?q2, None)]"
        let ?r3 = "r\<lparr>client := (client r)\<lparr>history := ?H @ ?n0\<rparr>, watchers := Suc (watchers r)\<rparr>"
        from a n1 n2 n3 have "registerFrontends env ?r3 (frontendSpecs r) = (err, r')"
          by (simp add: Start_def registerBackend_def Let_def client_do_eq backendFmt_eq
                serverFmt_eq Wrapf_def Wrap_def)
        from registerFrontends_effect [OF this] obtain n where n:
          "r' = ?r3\<lparr>client := (client ?r3)\<lparr>history := history (client ?r3) @ n\<rparr>,
                    ctx_done := (ctx_done ?r3 \<or> err \<noteq> None)\<rparr>"
          "err \<noteq> None \<longrightarrow> n \<noteq> []" "succeeded (butlast n)"
          "err = None \<longrightarrow> succeeded n \<and>
              map fst n = concat (map (spec_frontend_puts env (Chroot (cfg ?r3))) (frontendSpecs r)) \<and>
              list_all (\<lambda>fes. list_all (\<lambda>p. marshals env ((snd p)\<lparr>Priority := int (fst p)\<rparr>))
                (enumerate 0 (frontendSpec.Middlewares fes))) (frontendSpecs r)"
          "\<forall>q e. n \<noteq> [] \<and> last n = (q, Some e) \<longrightarrow>
              (\<exists>pre. err = Some (pre @ request_key q @ '': '' @ e))"
          by blast
        let ?new = "?n0 @ n"
        have len: "3 < length ?new \<longleftrightarrow> n \<noteq> []" by (cases n) simp_all
        have lim: "err \<noteq> None \<and> 3 < length ?new \<longleftrightarrow> err \<noteq> None"
          using n(2) len by blast
        have w: "(err = None \<or> 3 < length ?new)"
          using n(2) len by blast
        have 1: "r' = r\<lparr>client := (client r)\<lparr>history := ?H @ ?new\<rparr>,
                        ctx_done := (ctx_done r \<or> (err \<noteq> None \<and> 3 < length ?new)),
                        watchers := (if err = None \<or> 3 < length ?new then Suc (watchers r)
                                     else watchers r)\<rparr>"
          unfolding lim using n(1) w by simp
        have 2: "succeeded (butlast ?new)"
        proof (cases "n = []")
          case True
          then show ?thesis by (simp add: succeeded_simps)
        next
          case False
          then have "butlast ?new = ?n0 @ butlast n" by (simp add: butlast_append)
          then show ?thesis using n(3) by (simp add: succeeded_simps)
        qed
        have 3: "err = None \<longrightarrow> succeeded ?new \<and>
            map fst ?new = [?q1, ?q2, ?q2]
              @ concat (map (spec_frontend_puts env (Chroot (cfg r))) (frontendSpecs r)) \<and>
            list_all (\<lambda>fes. list_all (\<lambda>p. marshals env ((snd p)\<lparr>Priority := int (fst p)\<rparr>))
              (enumerate 0 (frontendSpec.Middlewares fes))) (frontendSpecs r)"
          using n(4) by (simp add: succeeded_simps)
        have 4: "\<forall>q e. last ?new = (q, Some e) \<longrightarrow>
                (\<exists>pre. err = Some (pre @ '': '' @ e)) \<and>
                (length ?new \<noteq> 3 \<longrightarrow> (\<exists>pre. err = Some (pre @ request_key q @ '': '' @ e)))"
        proof (intro allI impI)
          fix q e assume l: "last ?new = (q, Some e)"
          have ne: "n \<noteq> []"
          proof
            assume "n = []"
            with l show False by simp
          qed
          with l have "last n = (q, Some e)" by simp
          with ne n(5) obtain pre where p: "err = Some (pre @ request_key q @ '': '' @ e)"
            by blast
          then have "err = Some ((pre @ request_key q) @ '': '' @ e)" by simp
          with p show "(\<exists>pre. err = Some (pre @ '': '' @ e)) \<and>
                (length ?new \<noteq> 3 \<longrightarrow> (\<exists>pre. err = Some (pre @ request_key q @ '': '' @ e)))"
            by blast
        qed
        have 5: "?new \<noteq> []" by simp
        from 1 5 2 3 4 show ?thesis by blast
      qed
    qed
  qed
qed

lemma wg_NewRegistry: "NewRegistry env cfg0 appName ip port = Inr r \<Longrightarrow> wg r = 0"
  by (auto simp: NewRegistry_def Let_def split: sum.splits option.splits)

lemma wg_AddFrontend: "wg (AddFrontend env r host path methods middlewares) = wg r"
  by (simp add: AddFrontend_def)










lemma middlewareKey_eq:
  "Sprintf middlewareKey [c, h, i, m] = c @ ''/frontends/'' @ h @ ''.'' @ i @ ''/middlewares/'' @ m"
  by (simp add: middlewareKey_def)

text \<open>
  The single-master registry numbers the middlewares in the same way: when
  \<open>registerMiddleware\<close> succeeds it has set, for every middleware of the location and in
  list order, the document of that middleware with \<open>Priority\<close> equal to its position.
\<close>

lemma registerMiddleware_loop_effect:
  "registerMiddleware_loop env s location i ms = (None, s') \<Longrightarrow>
   \<exists>new. s' = s\<lparr>Client := (Client s)\<lparr>history := history (Client s) @ new\<rparr>\<rparr> \<and>
         succeeded new \<and>
         map fst new =
           map (\<lambda>p. Set (Key s @ ''/frontends/'' @ Location.Host location @ ''.''
                           @ Location.ID location @ ''/middlewares/'' @ Middleware.ID (snd p))
                        (case vulcan_env.json_Marshal env ((snd p)\<lparr>Priority := int (fst p)\<rparr>) of
                           Inl err \<Rightarrow> [] | Inr doc \<Rightarrow> doc) 0)
               (enumerate i ms) \<and>
         list_all (\<lambda>p. \<exists>doc. vulcan_env.json_Marshal env ((snd p)\<lparr>Priority := int (fst p)\<rparr>) = Inr doc)
           (enumerate i ms)"
proof (induction ms arbitrary: s i)
  case Nil
  then show ?case by (auto simp: succeeded_simps intro!: exI [of _ "[]"])
next
  case (Cons m rest)
  from Cons.prems obtain doc where doc:
    "vulcan_env.json_Marshal env (m\<lparr>Priority := int i\<rparr>) = Inr doc"
    by (cases "vulcan_env.json_Marshal env (m\<lparr>Priority := int i\<rparr>)") (simp_all add: Let_def)
  let ?q = "Set (Key s @ ''/frontends/'' @ Location.Host location @ ''.''
                   @ Location.ID location @ ''/middlewares/'' @ Middleware.ID m) doc 0"
  let ?res = "vulcan_env.respond env (history (Client s)) ?q"
  let ?s1 = "s\<lparr>Client := (Client s)\<lparr>history := history (Client s) @ [(?q, ?res)]\<rparr>\<rparr>"
  from Cons.prems doc have res: "?res = None"
    by (cases ?res) (simp_all add: Let_def client_do_eq middlewareKey_eq)
  with Cons.prems doc have "registerMiddleware_loop env ?s1 location (Suc i) rest = (None, s')"
    by (simp add: Let_def client_do_eq middlewareKey_eq)
  from Cons.IH [OF this] obtain new where new:
    "s' = ?s1\<lparr>Client := (Client ?s1)\<lparr>history := history (Client ?s1) @ new\<rparr>\<rparr>"
    "succeeded new"
    "map fst new =
       map (\<lambda>p. Set (Key ?s1 @ ''/frontends/'' @ Location.Host location @ ''.''
                       @ Location.ID location @ ''/middlewares/'' @ Middleware.ID (snd p))
                    (case vulcan_env.json_Marshal env ((snd p)\<lparr>Priority := int (fst p)\<rparr>) of
                       Inl err \<Rightarrow> [] | Inr doc \<Rightarrow> doc) 0)
           (enumerate (Suc i) rest)"
    "list_all (\<lambda>p. \<exists>doc. vulcan_env.json_Marshal env ((snd p)\<lparr>Priority := int (fst p)\<rparr>) = Inr doc)
       (enumerate (Suc i) rest)"
    by blast
  let ?new = "(?q, ?res) # new"
  have 1: "s' = s\<lparr>Client := (Client s)\<lparr>history := history (Client s) @ ?new\<rparr>\<rparr>"
    using new(1) by simp
  have 2: "succeeded ?new" using new(2) res by (simp add: succeeded_simps)
  have 3: "map fst ?new =
           map (\<lambda>p. Set (Key s @ ''/frontends/'' @ Location.Host location @ ''.''
                           @ Location.ID location @ ''/middlewares/'' @ Middleware.ID (snd p))
                        (case vulcan_env.json_Marshal env ((snd p)\<lparr>Priority := int (fst p)\<rparr>) of
                           Inl err \<Rightarrow> [] | Inr doc \<Rightarrow> doc) 0)
               (enumerate i (m # rest))"
    using new(3) doc by simp
  have 4: "list_all (\<lambda>p. \<exists>doc. vulcan_env.json_Marshal env ((snd p)\<lparr>Priority := int (fst p)\<rparr>) = Inr doc)
           (enumerate i (m # rest))"
    using new(4) doc by simp
  from 1 2 3 4 show ?case by blast
qed

text \<open>
  Claim C1 does not hold of the code.  No statement of the package calls \<open>wg.Add\<close> or
  \<open>wg.Done\<close>, so the counter that \<open>Stop\<close> waits for is still zero after \<open>Start\<close>.
  When the caller takes both of its steps before the watcher is scheduled, \<open>Stop\<close> has
  cancelled the context and returned while no revoke has been issued and the watcher
  has not exited; the revoke follows only when the watcher runs.
\<close>

theorem Stop_returns_before_revoke:
  assumes "wg r = 0" and "Start env r = (None, r')"
  shows "\<exists>s s'. run [StopCaller, StopCaller] (after_Start r') = Some s \<and>
           stop_pc s = Returned \<and> ctx_done (reg s) \<and> revokes s = [] \<and>
           exited s < watchers (reg s) \<and>
           run [Watcher] s = Some s' \<and> revokes s' = [leaseID r]"
proof -
  from Start_effect [OF assms(2)] obtain new where
    "r' = r\<lparr>client := (client r)\<lparr>history := history (client r) @ new\<rparr>,
              ctx_done := (ctx_done r \<or> ((None::error option) \<noteq> None \<and> 3 < length new)),
              watchers := (if (None::error option) = None \<or> 3 < length new then Suc (watchers r)
                           else watchers r)\<rparr>"
    by blast
  then have f: "wg r' = 0" "watchers r' = Suc (watchers r)" "leaseID r' = leaseID r"
    using assms(1) by simp_all
  let ?s = "\<lparr>reg = r'\<lparr>ctx_done := True\<rparr>, stop_pc = Returned, revokes = [], exited = 0\<rparr>"
  let ?s' = "?s\<lparr>revokes := [leaseID r], exited := Suc 0\<rparr>"
  have 1: "run [StopCaller, StopCaller] (after_Start r') = Some ?s"
    using f by (simp add: after_Start_def)
  have 2: "run [Watcher] ?s = Some ?s'"
    using f by simp
  have 3: "stop_pc ?s = Returned \<and> ctx_done (reg ?s) \<and> revokes ?s = [] \<and>
           exited ?s < watchers (reg ?s) \<and> revokes ?s' = [leaseID r]"
    using f by simp
  from 1 2 3 show ?thesis by blast
qed

text \<open>The same run on the example registry, after a successful \<open>Start\<close>.\<close>

theorem Stop_returns_before_revoke_witness:
  "wg demo_registry = 0 \<and> fst (Start (demo_env None) demo_registry) = None \<and>
   map_option (\<lambda>s. (stop_pc s, ctx_done (reg s), revokes s, exited s, watchers (reg s)))
     (run [StopCaller, StopCaller] (after_Start (snd (Start (demo_env None) demo_registry))))
     = Some (Returned, True, [], 0, 1) \<and>
   (\<exists>s s'. run [StopCaller, StopCaller] (after_Start (snd (Start (demo_env None) demo_registry)))
             = Some s \<and> stop_pc s = Returned \<and> revokes s = [] \<and>
           run [Watcher] s = Some s' \<and> revokes s' = [leaseID demo_registry])"
proof -
  have e: "wg demo_registry = 0 \<and> fst (Start (demo_env None) demo_registry) = None \<and>
   map_option (\<lambda>s. (stop_pc s, ctx_done (reg s), revokes s, exited s, watchers (reg s)))
     (run [StopCaller, StopCaller] (after_Start (snd (Start (demo_env None) demo_registry))))
     = Some (Returned, True, [], 0, 1)"
    by code_simp
  then have w: "wg demo_registry = 0" by simp
  have s: "Start (demo_env None) demo_registry = (None, snd (Start (demo_env None) demo_registry))"
    using e by (simp add: prod_eq_iff)
  from Stop_returns_before_revoke [OF w s] e show ?thesis by blast
qed

text \<open>
  Claim C8.  A registry that \<open>NewRegistry\<close> returns has the TTL of 30 seconds if the
  given TTL was not positive and the given TTL otherwise; its etcd configuration is the
  given one, or the single endpoint \<open>127.0.0.1:2379\<close> if none was given; the chroot is
  unchanged.  The lease was granted for the effective TTL.
\<close>

theorem NewRegistry_defaults:
  assumes "NewRegistry env cfg0 appName ip port = Inr r"
  shows "Config.TTL (cfg r) = (if Config.TTL cfg0 \<le> 0 then 30 * 1000000000 else Config.TTL cfg0) \<and>
         Etcd (cfg r) = (case Etcd cfg0 of
                           None \<Rightarrow> Some \<lparr>Endpoints = [''127.0.0.1:2379'']\<rparr>
                         | Some given \<Rightarrow> Some given) \<and>
         Chroot (cfg r) = Chroot cfg0 \<and>
         Grant env (client r) (int64_Seconds env (Config.TTL (cfg r))) = Inr (leaseID r)"
  using assms
  by (auto simp: NewRegistry_def Let_def defaultRegistrationTTL_def Second_def localEtcdProxy_def
           split: sum.splits option.splits if_splits)

text \<open>A configuration with neither TTL nor etcd configuration gets both defaults.\<close>

theorem NewRegistry_defaults_witness:
  "\<exists>r. demo_new = Inr r \<and> Config.TTL (cfg r) = 30000000000 \<and>
        Etcd (cfg r) = Some \<lparr>Endpoints = [''127.0.0.1:2379'']\<rparr> \<and> Chroot (cfg r) = ''/vulcand'' \<and>
        leaseID r = 7"
proof -
  have "demo_new = Inr \<lparr>cfg = \<lparr>Etcd = Some \<lparr>Endpoints = [''127.0.0.1:2379'']\<rparr>,
                              Chroot = ''/vulcand'', Config.TTL = 30000000000\<rparr>,
                        client = \<lparr>history = []\<rparr>,
                        backendSpec = \<lparr>AppName = ''app'', backendSpec.ID = ''10.0.0.1''\<rparr>,
                        frontendSpecs = [], ctx_done = False, wg = 0, leaseID = 7, watchers = 0\<rparr>"
    (is "_ = Inr ?r")
    by code_simp
  then have n: "NewRegistry (demo_env None) \<lparr>Etcd = None, Chroot = ''/vulcand'', Config.TTL = 0\<rparr>
                  ''app'' ''10.0.0.1'' 8080 = Inr ?r"
    by (simp add: demo_new_def)
  from NewRegistry_defaults [OF n]
  have "Config.TTL (cfg ?r) = 30000000000 \<and>
        Etcd (cfg ?r) = Some \<lparr>Endpoints = [''127.0.0.1:2379'']\<rparr> \<and> Chroot (cfg ?r) = ''/vulcand''"
    by simp
  with \<open>demo_new = Inr ?r\<close> show ?thesis by (intro exI [of _ ?r]) simp
qed

text \<open>
  Claim C9.  When the endpoint cannot be built, \<open>RegisterApp\<close> returns nil and leaves the
  registry, and with it the store, untouched; \<open>assumeMasterRole\<close> and
  \<open>maintainMasterRole\<close> do the same when the server spec cannot be built.
\<close>

theorem RegisterApp_discards_endpoint_error:
  "(NewEndpointWithID env masterNodeID (AppRegistration.Name registration)
        (AppRegistration.Host registration) (AppRegistration.Port registration) = Inl e \<longrightarrow>
      RegisterApp env s registration = (None, s)) \<and>
   (ServerSpec env endpoint = Inl e' \<longrightarrow>
      assumeMasterRole env s endpoint = (None, s) \<and> maintainMasterRole env s endpoint = (None, s))"
  by (simp add: RegisterApp_def assumeMasterRole_def maintainMasterRole_def Let_def)

text \<open>A registration with port 0 and an endpoint without ID, on a fresh registry.\<close>

theorem RegisterApp_discards_endpoint_error_witness:
  "RegisterApp demo_vulcan_env (NewSingleMasterRegistry ''/vulcand'' 10)
     \<lparr>AppRegistration.Name = ''app'', AppRegistration.Host = ''localhost'', AppRegistration.Port = 0\<rparr>
     = (None, NewSingleMasterRegistry ''/vulcand'' 10) \<and>
   assumeMasterRole demo_vulcan_env (NewSingleMasterRegistry ''/vulcand'' 10)
     \<lparr>Endpoint.ID = [], Endpoint.Name = ''app''\<rparr> = (None, NewSingleMasterRegistry ''/vulcand'' 10) \<and>
   maintainMasterRole demo_vulcan_env (NewSingleMasterRegistry ''/vulcand'' 10)
     \<lparr>Endpoint.ID = [], Endpoint.Name = ''app''\<rparr> = (None, NewSingleMasterRegistry ''/vulcand'' 10) \<and>
   history (Client (snd (RegisterApp demo_vulcan_env (NewSingleMasterRegistry ''/vulcand'' 10)
     \<lparr>AppRegistration.Name = ''app'', AppRegistration.Host = ''localhost'', AppRegistration.Port = 0\<rparr>))) = []"
proof -
  have h1: "NewEndpointWithID demo_vulcan_env masterNodeID
              (AppRegistration.Name \<lparr>AppRegistration.Name = ''app'', AppRegistration.Host = ''localhost'', AppRegistration.Port = 0\<rparr>)
              (AppRegistration.Host \<lparr>AppRegistration.Name = ''app'', AppRegistration.Host = ''localhost'', AppRegistration.Port = 0\<rparr>)
              (AppRegistration.Port \<lparr>AppRegistration.Name = ''app'', AppRegistration.Host = ''localhost'', AppRegistration.Port = 0\<rparr>)
            = Inl ''invalid port''"
    by (simp add: demo_vulcan_env_def)
  have h2: "ServerSpec demo_vulcan_env \<lparr>Endpoint.ID = [], Endpoint.Name = ''app''\<rparr>
            = Inl ''endpoint without ID''"
    by (simp add: demo_vulcan_env_def)
  from RegisterApp_discards_endpoint_error
         [of demo_vulcan_env
             "\<lparr>AppRegistration.Name = ''app'', AppRegistration.Host = ''localhost'', AppRegistration.Port = 0\<rparr>"
             "''invalid port''" "NewSingleMasterRegistry ''/vulcand'' 10"
             "\<lparr>Endpoint.ID = [], Endpoint.Name = ''app''\<rparr>" "''endpoint without ID''"]
       h1 h2
  show ?thesis by (simp add: NewSingleMasterRegistry_def)
qed

text \<open>With a valid port the backend and the server record are written.\<close>

lemma RegisterApp_registers_valid_endpoint:
  \<open>map fst (history (Client (snd (RegisterApp demo_vulcan_env (NewSingleMasterRegistry ''/vulcand'' 10)
     \<lparr>AppRegistration.Name = ''app'', AppRegistration.Host = ''localhost'', AppRegistration.Port = 80\<rparr>))))
   = [Set ''/vulcand/backends/app/backend'' ''{"Type":"http"}'' 0,
      Create ''/vulcand/backends/app/servers/master'' ''{"URL":"http://localhost"}'' 10]\<close>
  by code_simp

end
